theory Spec2Isabelle
  imports Complex_Main "HOL-Library.Sublist"
begin

section \<open>Floating-point values as the training loops see them\<close>

text \<open>
  The training loops of \<^verbatim>\<open>lightwood/mixers/neural.py\<close> only add, average and compare
  losses and test them with \<^verbatim>\<open>np.isnan\<close> and \<^verbatim>\<open>np.isinf\<close>. A loss is therefore
  a finite number, one of the two infinities, or not-a-number. Finite values are taken
  as real numbers: rounding and overflow of finite arithmetic are not modelled. The
  special values follow IEEE 754: every comparison with \<open>NaN\<close> is false, and
  \<open>inf - inf\<close> is \<open>NaN\<close>.
\<close>

datatype fl = Fin real | PInf | NInf | NaN

fun isnan :: "fl \<Rightarrow> bool" where
  "isnan NaN = True"
| "isnan _ = False"

fun isinf :: "fl \<Rightarrow> bool" where
  "isinf PInf = True"
| "isinf NInf = True"
| "isinf _ = False"

text \<open>Python's \<^verbatim>\<open>a < b\<close>, \<^verbatim>\<open>a <= b\<close> and \<^verbatim>\<open>a > b\<close> on floats.\<close>

fun fl_lt :: "fl \<Rightarrow> fl \<Rightarrow> bool" where
  "fl_lt NaN _ = False"
| "fl_lt _ NaN = False"
| "fl_lt (Fin a) (Fin b) = (a < b)"
| "fl_lt (Fin a) PInf = True"
| "fl_lt (Fin a) NInf = False"
| "fl_lt PInf _ = False"
| "fl_lt NInf NInf = False"
| "fl_lt NInf _ = True"

fun fl_le :: "fl \<Rightarrow> fl \<Rightarrow> bool" where
  "fl_le NaN _ = False"
| "fl_le _ NaN = False"
| "fl_le (Fin a) (Fin b) = (a \<le> b)"
| "fl_le (Fin a) PInf = True"
| "fl_le (Fin a) NInf = False"
| "fl_le PInf PInf = True"
| "fl_le PInf _ = False"
| "fl_le NInf _ = True"

definition fl_gt :: "fl \<Rightarrow> fl \<Rightarrow> bool" where
  "fl_gt a b = fl_lt b a"

fun fl_add :: "fl \<Rightarrow> fl \<Rightarrow> fl" where
  "fl_add NaN _ = NaN"
| "fl_add _ NaN = NaN"
| "fl_add (Fin a) (Fin b) = Fin (a + b)"
| "fl_add PInf NInf = NaN"
| "fl_add NInf PInf = NaN"
| "fl_add PInf _ = PInf"
| "fl_add NInf _ = NInf"
| "fl_add (Fin a) PInf = PInf"
| "fl_add (Fin a) NInf = NInf"

fun fl_neg :: "fl \<Rightarrow> fl" where
  "fl_neg (Fin a) = Fin (- a)"
| "fl_neg PInf = NInf"
| "fl_neg NInf = PInf"
| "fl_neg NaN = NaN"

definition fl_sub :: "fl \<Rightarrow> fl \<Rightarrow> fl" where
  "fl_sub a b = fl_add a (fl_neg b)"

text \<open>Multiplication by a finite constant \<open>c\<close>.\<close>

fun fl_scale :: "real \<Rightarrow> fl \<Rightarrow> fl" where
  "fl_scale c (Fin a) = Fin (c * a)"
| "fl_scale c NaN = NaN"
| "fl_scale c PInf = (if c > 0 then PInf else if c < 0 then NInf else NaN)"
| "fl_scale c NInf = (if c > 0 then NInf else if c < 0 then PInf else NaN)"

definition fl_sum :: "fl list \<Rightarrow> fl" where
  "fl_sum xs = foldl fl_add (Fin 0) xs"

text \<open>\<^verbatim>\<open>np.mean\<close>: the mean of an empty list is \<open>NaN\<close> (numpy warns and returns it).\<close>

definition np_mean :: "fl list \<Rightarrow> fl" where
  "np_mean xs = (if xs = [] then NaN else fl_scale (1 / real (length xs)) (fl_sum xs))"

text \<open>\<^verbatim>\<open>np.average(a, weights=w)\<close>: the weighted sum divided by the sum of the weights.\<close>

definition np_average :: "fl list \<Rightarrow> real list \<Rightarrow> fl" where
  "np_average a w = fl_scale (1 / sum_list w) (fl_sum (map2 (\<lambda>x c. fl_scale c x) a w))"

section \<open>The bounded trainer \<^verbatim>\<open>_max_fit\<close>\<close>

text \<open>
  The network, the optimizer and the loaders are collaborators of the mixer. They enter
  the model as parameters:
  \<^item> \<open>'m\<close> is the trainable state that a gradient step reads and writes in place
    (\<^verbatim>\<open>self.model\<close>, with the buffers of the optimizer and the scaler);
  \<^item> \<open>tr_step m b\<close> is lines 169 to 183 on the batch \<open>b\<close>: the state after the step and
    \<^verbatim>\<open>loss.item()\<close>;
  \<^item> \<open>tr_loss m b\<close> is \<^verbatim>\<open>criterion(self.model(X), Y).item()\<close> in evaluation mode;
  \<^item> \<open>tr_clock e\<close> is the reading of \<^verbatim>\<open>time.time() - started\<close> in epoch \<open>e\<close>;
  \<^item> a loader is the list of the batches it yields, the same list on every pass.
\<close>

record ('m, 'b) trainer =
  tr_step :: "'m \<Rightarrow> 'b \<Rightarrow> 'm \<times> fl"
  tr_loss :: "'m \<Rightarrow> 'b \<Rightarrow> fl"
  tr_clock :: "nat \<Rightarrow> real"

text \<open>The inner loop of lines 168 to 183: the state after the pass and \<^verbatim>\<open>running_losses\<close>.\<close>

fun train_batches :: "('m \<Rightarrow> 'b \<Rightarrow> 'm \<times> fl) \<Rightarrow> 'm \<Rightarrow> 'b list \<Rightarrow> 'm \<times> fl list" where
  "train_batches step m [] = (m, [])"
| "train_batches step m (b # bs) =
     (case step m b of (m1, l) \<Rightarrow>
        (case train_batches step m1 bs of (m2, ls) \<Rightarrow> (m2, l # ls)))"

text \<open>\<^verbatim>\<open>_error\<close> (lines 215 to 224): the mean of the per-batch losses over the dev loader.\<close>

definition dev_error :: "('m, 'b) trainer \<Rightarrow> 'm \<Rightarrow> 'b list \<Rightarrow> fl" where
  "dev_error tr m dev_dl = np_mean (map (tr_loss tr m) dev_dl)"

text \<open>
  The local variables of \<^verbatim>\<open>_max_fit\<close>. \<^verbatim>\<open>best_model = self.model\<close> (line 163) binds
  the live object, which training then mutates in place; only \<^verbatim>\<open>deepcopy\<close> (line 198)
  makes an independent value. \<open>mf_best\<close> is \<open>None\<close> while \<^verbatim>\<open>best_model\<close> is still that
  alias and \<open>Some\<close> of the copy afterwards.
\<close>

record 'm max_fit_state =
  mf_model :: 'm
  mf_best :: "'m option"
  mf_epochs_to_best :: nat
  mf_best_dev_error :: fl
  mf_running_errors :: "fl list"

text \<open>How an epoch leaves the loop: by one of the four \<^verbatim>\<open>break\<close>s, or into the next epoch.\<close>

datatype outcome = Continue | Diverged | Plateau | TimeUp | Converged

text \<open>\<^verbatim>\<open>xs[-j]\<close> for \<open>1 \<le> j \<le> len(xs)\<close>.\<close>

definition from_end :: "'a list \<Rightarrow> nat \<Rightarrow> 'a" where
  "from_end xs j = xs ! (length xs - j)"

text \<open>Lines 202 and 203, evaluated only when at least five errors are recorded.\<close>

definition delta_mean :: "fl list \<Rightarrow> fl" where
  "delta_mean errs =
     np_average (map (\<lambda>i. fl_sub (from_end errs (i + 1)) (from_end errs i)) [1, 2, 3, 4])
                (map (\<lambda>i. (1 / 2) ^ i) [1, 2, 3, 4])"

text \<open>The body of the epoch loop, lines 166 to 209.\<close>

definition max_fit_epoch ::
  "('m, 'b) trainer \<Rightarrow> 'b list \<Rightarrow> 'b list \<Rightarrow> real \<Rightarrow> nat \<Rightarrow> 'm max_fit_state
     \<Rightarrow> 'm max_fit_state \<times> outcome" where
  "max_fit_epoch tr train_dl dev_dl stop_after epoch st =
     (case train_batches (tr_step tr) (mf_model st) train_dl of (m1, running_losses) \<Rightarrow>
        let train_error = np_mean running_losses;
            epoch_error = dev_error tr m1 dev_dl;
            st1 = st\<lparr>mf_model := m1,
                     mf_running_errors := mf_running_errors st @ [epoch_error]\<rparr>
        in if isnan train_error \<or> isnan epoch_error \<or> isinf train_error \<or> isinf epoch_error
           then (st1, Diverged)
           else
             let st2 = (if fl_gt (mf_best_dev_error st1) epoch_error
                        then st1\<lparr>mf_best_dev_error := epoch_error,
                                 mf_best := Some m1,
                                 mf_epochs_to_best := epoch\<rparr>
                        else st1)
             in if length (mf_running_errors st2) \<ge> 5
                then (if fl_le (delta_mean (mf_running_errors st2)) (Fin 0)
                      then (st2, Plateau) else (st2, Continue))
                else if tr_clock tr epoch > stop_after then (st2, TimeUp)
                else if fl_lt epoch_error (Fin (1 / 10000)) \<or> fl_lt train_error (Fin (1 / 10000))
                then (st2, Converged)
                else (st2, Continue))"

text \<open>
  \<^verbatim>\<open>for epoch in range(1, return_model_after + 1)\<close>: \<open>n\<close> epochs are left, the next one
  is \<open>epoch\<close>. The loop ends by a \<^verbatim>\<open>break\<close> or, with \<open>Continue\<close>, when the range is
  used up.
\<close>

fun max_fit_loop ::
  "('m, 'b) trainer \<Rightarrow> 'b list \<Rightarrow> 'b list \<Rightarrow> real \<Rightarrow> nat \<Rightarrow> nat \<Rightarrow> 'm max_fit_state
     \<Rightarrow> 'm max_fit_state \<times> outcome" where
  "max_fit_loop tr train_dl dev_dl stop_after 0 epoch st = (st, Continue)"
| "max_fit_loop tr train_dl dev_dl stop_after (Suc n) epoch st =
     (case max_fit_epoch tr train_dl dev_dl stop_after epoch st of (st1, oc) \<Rightarrow>
        if oc = Continue then max_fit_loop tr train_dl dev_dl stop_after n (Suc epoch) st1
        else (st1, oc))"

text \<open>Lines 159 to 163: \<^verbatim>\<open>pow(2, 32)\<close> is the sentinel for "no error seen".\<close>

definition max_fit_init :: "'m \<Rightarrow> 'm max_fit_state" where
  "max_fit_init m =
     \<lparr>mf_model = m, mf_best = None, mf_epochs_to_best = 0,
      mf_best_dev_error = Fin (2 ^ 32), mf_running_errors = []\<rparr>"

text \<open>The object \<^verbatim>\<open>best_model\<close> refers to when the function returns.\<close>

definition best_model :: "'m max_fit_state \<Rightarrow> 'm" where
  "best_model st = (case mf_best st of None \<Rightarrow> mf_model st | Some b \<Rightarrow> b)"

text \<open>Lines 211 to 213.\<close>

definition max_fit_result :: "'m max_fit_state \<Rightarrow> 'm \<times> nat \<times> fl" where
  "max_fit_result st =
     (best_model st, mf_epochs_to_best st,
      if isnan (mf_best_dev_error st) then Fin (2 ^ 32) else mf_best_dev_error st)"

definition max_fit_run ::
  "('m, 'b) trainer \<Rightarrow> 'm \<Rightarrow> 'b list \<Rightarrow> 'b list \<Rightarrow> real \<Rightarrow> nat \<Rightarrow> 'm max_fit_state \<times> outcome" where
  "max_fit_run tr m train_dl dev_dl stop_after return_model_after =
     max_fit_loop tr train_dl dev_dl stop_after return_model_after 1 (max_fit_init m)"

definition max_fit ::
  "('m, 'b) trainer \<Rightarrow> 'm \<Rightarrow> 'b list \<Rightarrow> 'b list \<Rightarrow> real \<Rightarrow> nat \<Rightarrow> 'm \<times> nat \<times> fl" where
  "max_fit tr m train_dl dev_dl stop_after return_model_after =
     max_fit_result (fst (max_fit_run tr m train_dl dev_dl stop_after return_model_after))"


text \<open>
  An epoch's losses are finite when neither \<^verbatim>\<open>train_error\<close> nor the epoch error is
  \<open>NaN\<close> or infinite (the negation of the test of lines 191 to 193), for the epoch
  that starts from the state \<open>m\<close>.
\<close>

definition finite_losses :: "('m, 'b) trainer \<Rightarrow> 'b list \<Rightarrow> 'b list \<Rightarrow> 'm \<Rightarrow> bool" where
  "finite_losses tr train_dl dev_dl m =
     (case train_batches (tr_step tr) m train_dl of (m1, ls) \<Rightarrow>
        \<not> (isnan (np_mean ls) \<or> isnan (dev_error tr m1 dev_dl)
           \<or> isinf (np_mean ls) \<or> isinf (dev_error tr m1 dev_dl)))"



subsection \<open>Concrete trainers\<close>

text \<open>
  Small trainers on which the loops are run below. The trainable state is a counter of
  the gradient steps taken; every loader has one batch; the clock reads \<open>e\<close> seconds in
  epoch \<open>e\<close>.
  \<^item> \<open>ex_trainer\<close>: training loss 1, dev error \<open>10 - m\<close> after \<open>m\<close> steps.
  \<^item> \<open>ex_overflow\<close>: every training loss is infinite, the dev error stays 0.3.
  \<^item> \<open>ex_blowup\<close>: the dev error is \<open>2^33\<close> throughout, the training loss becomes
    infinite in the second epoch.
  \<^item> \<open>ex_late_nan\<close>: as \<open>ex_trainer\<close>, but the training loss is \<open>NaN\<close> from the third
    epoch on.
\<close>

definition ex_trainer :: "(nat, unit) trainer" where
  "ex_trainer = \<lparr>tr_step = (\<lambda>m b. (Suc m, Fin 1)), tr_loss = (\<lambda>m b. Fin (10 - real m)),
                  tr_clock = (\<lambda>e. real e)\<rparr>"




section \<open>The learning-rate finder \<^verbatim>\<open>_find_lr\<close>\<close>

text \<open>The exceptions the modelled code can raise.\<close>

datatype py_error = ValueError | IndexError | KeyError | AttributeError

text \<open>
  \<^verbatim>\<open>np.argmin\<close> raises \<^verbatim>\<open>ValueError\<close> on an empty sequence. Otherwise it returns the
  first index of the minimum, where a \<open>NaN\<close> counts as the minimum. \<open>argmin_from k v i xs\<close>
  scans \<open>xs\<close>, whose head has index \<open>i\<close>, with the minimum so far \<open>v\<close> at index \<open>k\<close>.
\<close>

fun argmin_from :: "nat \<Rightarrow> fl \<Rightarrow> nat \<Rightarrow> fl list \<Rightarrow> nat" where
  "argmin_from k v i [] = k"
| "argmin_from k v i (x # xs) =
     (if isnan v then k
      else if isnan x \<or> fl_lt x v then argmin_from i x (Suc i) xs
      else argmin_from k v (Suc i) xs)"

definition np_argmin :: "fl list \<Rightarrow> py_error + nat" where
  "np_argmin xs = (case xs of [] \<Rightarrow> Inl ValueError | x # rest \<Rightarrow> Inr (argmin_from 0 x 1 rest))"

text \<open>
  The local variables of \<^verbatim>\<open>_find_lr\<close>. \<open>sw_lr\<close> is \<^verbatim>\<open>optimizer.param_groups[0]['lr']\<close>.
  As in \<^verbatim>\<open>_max_fit\<close>, \<^verbatim>\<open>best_model\<close> starts as an alias of the live model (line 111):
  \<open>sw_best\<close> is \<open>None\<close> until the first \<^verbatim>\<open>deepcopy\<close> (line 149). The counter
  \<^verbatim>\<open>batches\<close> is written and never read; it is left out.
\<close>

record 'm find_lr_state =
  sw_model :: 'm
  sw_lr :: real
  sw_cum_loss :: fl
  sw_running_losses :: "fl list"
  sw_lr_log :: "real list"
  sw_best :: "'m option"
  sw_stop :: bool

text \<open>
  Line 139: \<^verbatim>\<open>if (i + 1) * epoch % 6:\<close>. The product is taken first, then the
  remainder; an integer is true when it is not zero.
\<close>

definition cadence_fires :: "nat \<Rightarrow> nat \<Rightarrow> bool" where
  "cadence_fires i epoch = ((i + 1) * epoch mod 6 \<noteq> 0)"

text \<open>
  One batch, lines 122 to 151. \<open>step lr m b\<close> is the gradient step of lines 123 to 135
  at the learning rate \<open>lr\<close>: the state after the step and \<^verbatim>\<open>loss.item()\<close>.
\<close>

definition find_lr_batch ::
  "(real \<Rightarrow> 'm \<Rightarrow> 'b \<Rightarrow> 'm \<times> fl) \<Rightarrow> nat \<Rightarrow> nat \<Rightarrow> 'b \<Rightarrow> 'm find_lr_state \<Rightarrow> 'm find_lr_state" where
  "find_lr_batch step epoch i b st =
     (case step (sw_lr st) (sw_model st) b of (m1, loss) \<Rightarrow>
        let st1 = st\<lparr>sw_model := m1, sw_cum_loss := fl_add (sw_cum_loss st) loss\<rparr>
        in if cadence_fires i epoch
           then
             let lr = sw_lr st1;
                 running_losses = sw_running_losses st1 @ [sw_cum_loss st1];
                 st2 = st1\<lparr>sw_running_losses := running_losses,
                          sw_lr_log := sw_lr_log st1 @ [lr],
                          sw_cum_loss := Fin 0\<rparr>
             in if length running_losses < 2
                   \<or> fl_gt (np_mean (butlast running_losses)) (np_mean running_losses)
                then st2\<lparr>sw_lr := lr * (14 / 10), sw_best := Some m1\<rparr>
                else st2\<lparr>sw_stop := True\<rparr>
           else st1)"

text \<open>\<^verbatim>\<open>for i, (X, Y) in enumerate(dl)\<close> with its \<^verbatim>\<open>if stop: break\<close>, from index \<open>i\<close> on.\<close>

fun find_lr_epoch ::
  "(real \<Rightarrow> 'm \<Rightarrow> 'b \<Rightarrow> 'm \<times> fl) \<Rightarrow> nat \<Rightarrow> nat \<Rightarrow> 'b list \<Rightarrow> 'm find_lr_state \<Rightarrow> 'm find_lr_state" where
  "find_lr_epoch step epoch i [] st = st"
| "find_lr_epoch step epoch i (b # bs) st =
     (if sw_stop st then st
      else find_lr_epoch step epoch (Suc i) bs (find_lr_batch step epoch i b st))"

text \<open>\<^verbatim>\<open>for epoch in range(1, 101)\<close> with its \<^verbatim>\<open>if stop: break\<close>: \<open>n\<close> epochs are left.\<close>

fun find_lr_epochs ::
  "(real \<Rightarrow> 'm \<Rightarrow> 'b \<Rightarrow> 'm \<times> fl) \<Rightarrow> 'b list \<Rightarrow> nat \<Rightarrow> nat \<Rightarrow> 'm find_lr_state \<Rightarrow> 'm find_lr_state" where
  "find_lr_epochs step dl 0 epoch st = st"
| "find_lr_epochs step dl (Suc n) epoch st =
     (if sw_stop st then st
      else find_lr_epochs step dl n (Suc epoch) (find_lr_epoch step epoch 0 dl st))"

text \<open>Lines 104 to 113; \<open>lr\<close> is \<^verbatim>\<open>self.lr\<close>, the rate the optimizer is created with.\<close>

definition find_lr_init :: "real \<Rightarrow> 'm \<Rightarrow> 'm find_lr_state" where
  "find_lr_init lr m =
     \<lparr>sw_model = m, sw_lr = lr, sw_cum_loss = Fin 0, sw_running_losses = [], sw_lr_log = [],
      sw_best = None, sw_stop = False\<rparr>"

definition find_lr_sweep ::
  "(real \<Rightarrow> 'm \<Rightarrow> 'b \<Rightarrow> 'm \<times> fl) \<Rightarrow> real \<Rightarrow> 'm \<Rightarrow> 'b list \<Rightarrow> 'm find_lr_state" where
  "find_lr_sweep step lr m dl = find_lr_epochs step dl 100 1 (find_lr_init lr m)"

text \<open>
  Lines 153 to 156. An index out of the range of \<^verbatim>\<open>lr_log\<close> would raise
  \<^verbatim>\<open>IndexError\<close>.
\<close>

definition find_lr ::
  "(real \<Rightarrow> 'm \<Rightarrow> 'b \<Rightarrow> 'm \<times> fl) \<Rightarrow> real \<Rightarrow> 'm \<Rightarrow> 'b list \<Rightarrow> py_error + (real \<times> 'm)" where
  "find_lr step lr m dl =
     (let st = find_lr_sweep step lr m dl
      in case np_argmin (sw_running_losses st) of
           Inl e \<Rightarrow> Inl e
         | Inr k \<Rightarrow>
             if k < length (sw_lr_log st)
             then Inr (sw_lr_log st ! k,
                       case sw_best st of None \<Rightarrow> sw_model st | Some b \<Rightarrow> b)
             else Inl IndexError)"

text \<open>
  A gradient step for the runs below: the state counts the steps taken, and the loss of
  the step taken from state \<open>m\<close> is \<open>10 - m\<close>, whatever the rate.
\<close>

definition ex_step :: "real \<Rightarrow> nat \<Rightarrow> unit \<Rightarrow> nat \<times> fl" where
  "ex_step lr m b = (Suc m, Fin (10 - real m))"

text \<open>A gradient step whose loss rises: the \<open>n\<close>-th step has the loss \<open>n\<close>.\<close>

definition ex_rising_step :: "real \<Rightarrow> nat \<Rightarrow> unit \<Rightarrow> nat \<times> fl" where
  "ex_rising_step lr m b = (Suc m, Fin (real m + 1))"

section \<open>Loss and optimizer selection\<close>

text \<open>
  The type names are the string constants of \<^verbatim>\<open>lightwood.api.dtype\<close>, a module that is
  not part of the sources at hand: the six constants \<^verbatim>\<open>neural.py\<close> refers to are
  parameters of the model.
\<close>

record dtype_names =
  dt_integer :: string
  dt_float :: string
  dt_categorical :: string
  dt_binary :: string
  dt_tags :: string
  dt_array :: string

text \<open>The four loss functions; the cross-entropy carries its class weights.\<close>

datatype 'w criterion = TransformCrossEntropyLoss 'w | BCEWithLogitsLoss | L1Loss | MSELoss

text \<open>
  \<^verbatim>\<open>_select_criterion\<close>, lines 78 to 91. \<open>t\<close> is \<^verbatim>\<open>self.dtype_dict[self.target]\<close> (the
  key is present, or line 49 of \<^verbatim>\<open>__init__\<close> would have raised), \<open>ts\<close> is
  \<^verbatim>\<open>self.timeseries_settings.is_timeseries\<close> and \<open>w\<close> is the target encoder's
  \<^verbatim>\<open>index_weights\<close>. Membership in a tuple compares with \<^verbatim>\<open>==\<close>. In line 81 the
  parentheses of \<^verbatim>\<open>(dtype.tags)\<close> make no tuple: \<^verbatim>\<open>in\<close> is applied to the string
  itself and tests whether \<open>t\<close> occurs in it as a contiguous substring.
\<close>

definition select_criterion :: "dtype_names \<Rightarrow> string \<Rightarrow> bool \<Rightarrow> 'w \<Rightarrow> 'w criterion" where
  "select_criterion dn t ts w =
     (if t \<in> set [dt_categorical dn, dt_binary dn] then TransformCrossEntropyLoss w
      else if sublist t (dt_tags dn) then BCEWithLogitsLoss
      else if t \<in> set [dt_integer dn, dt_float dn, dt_array dn] \<and> ts then L1Loss
      else if t \<in> set [dt_integer dn, dt_float dn] then MSELoss
      else MSELoss)"

text \<open>A well-formed vocabulary: the six names differ, and none of the numeric and array
  names occurs inside the name of the tags type.\<close>

definition dtype_names_ok :: "dtype_names \<Rightarrow> bool" where
  "dtype_names_ok dn =
     (distinct [dt_categorical dn, dt_binary dn, dt_tags dn, dt_integer dn, dt_float dn, dt_array dn]
      \<and> \<not> sublist (dt_integer dn) (dt_tags dn)
      \<and> \<not> sublist (dt_float dn) (dt_tags dn)
      \<and> \<not> sublist (dt_array dn) (dt_tags dn))"

text \<open>The names as the attributes of \<^verbatim>\<open>dtype\<close> spell them.\<close>

definition ex_names :: dtype_names where
  "ex_names = \<lparr>dt_integer = ''integer'', dt_float = ''float'', dt_categorical = ''categorical'',
                dt_binary = ''binary'', dt_tags = ''tags'', dt_array = ''array''\<rparr>"

text \<open>
  \<^verbatim>\<open>_select_optimizer\<close>, lines 93 to 101: Ranger at the rate \<^verbatim>\<open>self.lr\<close>, with a weight
  decay of 0.02 unless the problem is a time series (Ranger's default is 0).
\<close>

record optimizer =
  opt_lr :: real
  opt_weight_decay :: real

definition select_optimizer :: "bool \<Rightarrow> real \<Rightarrow> optimizer" where
  "select_optimizer ts lr =
     (if ts then \<lparr>opt_lr = lr, opt_weight_decay = 0\<rparr>
      else \<lparr>opt_lr = lr, opt_weight_decay = 2 / 100\<rparr>)"

section \<open>Final tuning \<^verbatim>\<open>_final_tuning\<close>\<close>

text \<open>
  Lines 53 to 76. A dataset is the list of its \<open>(X, Y)\<close> samples. The collaborators are
  parameters: \<open>forward\<close> is \<^verbatim>\<open>self.model\<close> in evaluation mode, \<open>decode flag\<close> is the
  target encoder's \<^verbatim>\<open>decode\<close> while its \<^verbatim>\<open>decode_log\<close> is \<open>flag\<close>, and \<open>r2\<close> is
  \<^verbatim>\<open>sklearn.metrics.r2_score\<close>, which may raise. The reshaping by
  \<^verbatim>\<open>torch.unsqueeze\<close> changes no value and is left out.
\<close>

definition decoded_predictions :: "('x \<Rightarrow> 'y) \<Rightarrow> ('y \<Rightarrow> 'v list) \<Rightarrow> ('x \<times> 'y) list list \<Rightarrow> 'v list" where
  "decoded_predictions forward dec data_arr =
     concat (map (\<lambda>(X, Y). dec (forward X)) (concat data_arr))"

definition decoded_real_values :: "('y \<Rightarrow> 'v list) \<Rightarrow> ('x \<times> 'y) list list \<Rightarrow> 'v list" where
  "decoded_real_values dec data_arr = concat (map (\<lambda>(X, Y). dec Y) (concat data_arr))"

text \<open>The entry \<^verbatim>\<open>acc_dict[decode_log]\<close> of line 74.\<close>

definition tuning_score ::
  "('x \<Rightarrow> 'y) \<Rightarrow> (bool \<Rightarrow> 'y \<Rightarrow> 'v list) \<Rightarrow> ('v list \<Rightarrow> 'v list \<Rightarrow> py_error + fl)
     \<Rightarrow> ('x \<times> 'y) list list \<Rightarrow> bool \<Rightarrow> py_error + fl" where
  "tuning_score forward decode r2 data_arr decode_log =
     r2 (decoded_real_values (decode decode_log) data_arr)
        (decoded_predictions forward (decode decode_log) data_arr)"

text \<open>
  The result is the value of \<^verbatim>\<open>target_encoder.decode_log\<close> when the method is left,
  with the exception that left it, if any; \<open>flag\<close> is its value at the call. The loop
  of line 58 takes \<open>True\<close> first, then \<open>False\<close>, and sets the flag before it scores.
\<close>

definition final_tuning ::
  "dtype_names \<Rightarrow> string \<Rightarrow> ('x \<Rightarrow> 'y) \<Rightarrow> (bool \<Rightarrow> 'y \<Rightarrow> 'v list)
     \<Rightarrow> ('v list \<Rightarrow> 'v list \<Rightarrow> py_error + fl) \<Rightarrow> ('x \<times> 'y) list list \<Rightarrow> bool
     \<Rightarrow> bool \<times> py_error option" where
  "final_tuning dn t forward decode r2 data_arr flag =
     (if t \<in> set [dt_integer dn, dt_float dn]
      then (case tuning_score forward decode r2 data_arr True of
              Inl e \<Rightarrow> (True, Some e)
            | Inr acc_true \<Rightarrow>
                (case tuning_score forward decode r2 data_arr False of
                   Inl e \<Rightarrow> (False, Some e)
                 | Inr acc_false \<Rightarrow> (fl_gt acc_true acc_false, None)))
      else (flag, None))"

text \<open>
  Collaborators for a run of the final tuning. The score is the coefficient of
  determination of the predictions \<open>y_pred\<close> against the truth \<open>y_true\<close>, one minus the
  residual sum of squares over the total sum of squares about the mean of the truth; it
  is 1 for exact predictions and 0 when only the truth has no variance, and an empty or
  ill-matched input raises. The encoded values are numbers, the network is the identity;
  decoding with \<open>decode_log\<close> set leaves a value as it is, decoding with it cleared moves
  the two values 0.2 and 1.4 to 0.5 and 1.5. \<open>ex_data\<close> is one dataset of two samples,
  with the encoded truths 0 and 2 and the network outputs 0.2 and 1.4.
\<close>

definition ex_r2_score :: "real list \<Rightarrow> real list \<Rightarrow> py_error + fl" where
  "ex_r2_score y_true y_pred =
     (if y_true = [] \<or> length y_true \<noteq> length y_pred then Inl ValueError
      else let mean = sum_list y_true / real (length y_true);
               ss_res = sum_list (map2 (\<lambda>y p. (y - p) ^ 2) y_true y_pred);
               ss_tot = sum_list (map (\<lambda>y. (y - mean) ^ 2) y_true)
           in if ss_res = 0 then Inr (Fin 1)
              else if ss_tot = 0 then Inr (Fin 0)
              else Inr (Fin (1 - ss_res / ss_tot)))"

definition ex_decode :: "bool \<Rightarrow> real \<Rightarrow> real list" where
  "ex_decode flag v =
     (if flag then [v]
      else if v = 1 / 5 then [1 / 2] else if v = 7 / 5 then [3 / 2] else [v])"

definition ex_data :: "(real \<times> real) list list" where
  "ex_data = [[(1 / 5, 0), (7 / 5, 2)]]"

section \<open>Inference \<^verbatim>\<open>__call__\<close>: the arguments of \<^verbatim>\<open>decode\<close>\<close>

text \<open>
  The keyword arguments built in lines 303 to 308. A key that is absent from the
  dictionary is \<open>None\<close>. The source table is the list of its rows, a row maps a column
  name to its value; \<^verbatim>\<open>iloc[idx]\<close> raises \<^verbatim>\<open>IndexError\<close> out of range and the
  selection \<^verbatim>\<open>[[dep]]\<close> raises \<^verbatim>\<open>KeyError\<close> for a missing column. \<^verbatim>\<open>.values\<close> is
  the array of the one selected value.
\<close>

record 'v decode_kwargs =
  kw_dependency_data :: "(string \<rightharpoonup> 'v list) option"
  kw_return_raw :: "bool option"

text \<open>Lines 304 and 305: each pass assigns a fresh dictionary with the single key \<open>dep\<close>.\<close>

fun dependency_loop ::
  "string list \<Rightarrow> (string \<rightharpoonup> 'v) list \<Rightarrow> nat \<Rightarrow> 'v decode_kwargs \<Rightarrow> py_error + 'v decode_kwargs" where
  "dependency_loop [] data_frame idx kwargs = Inr kwargs"
| "dependency_loop (dep # deps) data_frame idx kwargs =
     (if idx < length data_frame
      then (case (data_frame ! idx) dep of
              None \<Rightarrow> Inl KeyError
            | Some v \<Rightarrow>
                dependency_loop deps data_frame idx
                  (kwargs\<lparr>kw_dependency_data := Some (Map.empty(dep \<mapsto> [v]))\<rparr>))
      else Inl IndexError)"

definition call_kwargs ::
  "string list \<Rightarrow> (string \<rightharpoonup> 'v) list \<Rightarrow> nat \<Rightarrow> bool \<Rightarrow> bool \<Rightarrow> py_error + 'v decode_kwargs" where
  "call_kwargs dependencies data_frame idx predict_proba supports_proba =
     (case dependency_loop dependencies data_frame idx
             \<lparr>kw_dependency_data = None, kw_return_raw = None\<rparr> of
        Inl e \<Rightarrow> Inl e
      | Inr kwargs \<Rightarrow>
          if predict_proba \<and> supports_proba then Inr (kwargs\<lparr>kw_return_raw := Some True\<rparr>)
          else Inr kwargs)"

text \<open>The value that \<^verbatim>\<open>decode\<close> finds for the column \<open>dep\<close> in its dependency data.\<close>

definition dependency_value :: "'v decode_kwargs \<Rightarrow> string \<Rightarrow> 'v list option" where
  "dependency_value kwargs dep =
     (case kw_dependency_data kwargs of None \<Rightarrow> None | Some d \<Rightarrow> d dep)"

text \<open>
  The keyword arguments of the \<^verbatim>\<open>decode\<close> calls of one inference pass over a dataset
  of \<open>n\<close> samples, in order; the first exception ends the pass.
\<close>

fun call_kwargs_from ::
  "string list \<Rightarrow> (string \<rightharpoonup> 'v) list \<Rightarrow> bool \<Rightarrow> bool \<Rightarrow> nat \<Rightarrow> nat
     \<Rightarrow> py_error + 'v decode_kwargs list" where
  "call_kwargs_from dependencies data_frame pp sp idx 0 = Inr []"
| "call_kwargs_from dependencies data_frame pp sp idx (Suc n) =
     (case call_kwargs dependencies data_frame idx pp sp of
        Inl e \<Rightarrow> Inl e
      | Inr kw \<Rightarrow>
          (case call_kwargs_from dependencies data_frame pp sp (Suc idx) n of
             Inl e \<Rightarrow> Inl e
           | Inr kws \<Rightarrow> Inr (kw # kws)))"

text \<open>A source table of one row with the columns \<open>a\<close> and \<open>b\<close>.\<close>

definition ex_frame :: "(string \<rightharpoonup> int) list" where
  "ex_frame = [[''a'' \<mapsto> 1, ''b'' \<mapsto> 2]]"

section \<open>The mixer: \<^verbatim>\<open>fit\<close> and \<^verbatim>\<open>partial_fit\<close>\<close>

text \<open>
  An encoded dataset is the list of its samples \<open>(X, Y)\<close>, two numeric vectors each.
\<close>

type_synonym sample = "real list \<times> real list"

type_synonym encoded_ds = "sample list"

text \<open>
  Modelled from the spec: the class \<^verbatim>\<open>ConcatedEncodedDs\<close> of
  \<^verbatim>\<open>lightwood.data.encoded_ds\<close> is not part of the sources at hand. The spec has it
  concatenate the datasets "into one logical dataset preserving row order across the
  concatenation boundary"; its length is the number of its rows.
\<close>

definition ConcatedEncodedDs :: "encoded_ds list \<Rightarrow> encoded_ds" where
  "ConcatedEncodedDs encoded_ds_arr = concat encoded_ds_arr"

text \<open>
  \<^verbatim>\<open>torch.utils.data.DataLoader\<close>: batches of \<open>batch_size\<close> consecutive rows, the last
  one possibly shorter. The permutation that \<^verbatim>\<open>shuffle=True\<close> draws before each pass
  is not modelled; no statement below depends on the order of the rows. (A batch size of
  0 does not occur: it is at least 40.)
\<close>

fun DataLoader :: "'a list \<Rightarrow> nat \<Rightarrow> 'a list list" where
  "DataLoader ds batch_size =
     (if ds = [] \<or> batch_size = 0 then []
      else take batch_size ds # DataLoader (drop batch_size ds) batch_size)"

declare DataLoader.simps [simp del]

text \<open>
  \<^verbatim>\<open>int(len(ds_arr) * 0.9)\<close>. The product is a double; for every length below \<open>2^50\<close>
  its integer part is the floor of nine tenths of the length.
\<close>

definition split_index :: "nat \<Rightarrow> nat" where
  "split_index n = n * 9 div 10"

text \<open>Lines 242 and 243: the training side and the validation side.\<close>

definition fit_split :: "'a list \<Rightarrow> 'a list \<times> 'a list" where
  "fit_split ds_arr =
     (take (split_index (length ds_arr)) ds_arr, drop (split_index (length ds_arr)) ds_arr)"

text \<open>
  The methods of the mixer that \<^verbatim>\<open>fit\<close> enters. \<open>mx_calls\<close> below lists them in the
  order of entry; it is bookkeeping for the statements about \<^verbatim>\<open>fit\<close> and has no
  counterpart in the Python object.
\<close>

datatype mixer_method = Init_net | Find_lr | Max_fit | Partial_fit | Final_tuning

text \<open>
  The attributes of the mixer, with \<^verbatim>\<open>decode_log\<close> and \<^verbatim>\<open>index_weights\<close> of its
  target encoder. \<open>mx_model\<close> is \<open>None\<close> until \<^verbatim>\<open>_init_net\<close> sets \<^verbatim>\<open>self.model\<close>.
\<close>

record 'm mixer =
  mx_stop_after :: real
  mx_target_dtype :: string
  mx_is_timeseries :: bool
  mx_fit_on_dev :: bool
  mx_default_net :: bool
  mx_index_weights :: "real list"
  mx_decode_log :: bool
  mx_epochs_to_best :: nat
  mx_batch_size :: nat
  mx_lr :: real
  mx_num_hidden :: nat
  mx_model :: "'m option"
  mx_calls :: "mixer_method list"

text \<open>The keyword arguments of the network's constructor, lines 227 to 234.\<close>

record net_kwargs =
  nk_input_size :: nat
  nk_output_size :: nat
  nk_num_hidden :: nat
  nk_dropout :: nat
  nk_autoregressive :: bool

text \<open>
  The collaborators of the mixer: the type names, the constructor of the network, the
  gradient step and the evaluation loss under a criterion, the clock (\<open>co_clock k e\<close>
  is the elapsed time read in epoch \<open>e\<close> of the \<open>k\<close>-th bounded run), the forward pass,
  and the target encoder's \<^verbatim>\<open>decode\<close> with \<^verbatim>\<open>r2_score\<close>.
\<close>

record ('m, 'v) collaborators =
  co_names :: dtype_names
  co_net :: "net_kwargs \<Rightarrow> 'm"
  co_step :: "real list criterion \<Rightarrow> optimizer \<Rightarrow> 'm \<Rightarrow> sample list \<Rightarrow> 'm \<times> fl"
  co_loss :: "real list criterion \<Rightarrow> 'm \<Rightarrow> sample list \<Rightarrow> fl"
  co_clock :: "nat \<Rightarrow> nat \<Rightarrow> real"
  co_forward :: "'m \<Rightarrow> real list \<Rightarrow> real list"
  co_decode :: "bool \<Rightarrow> real list \<Rightarrow> 'v list"
  co_r2 :: "'v list \<Rightarrow> 'v list \<Rightarrow> py_error + fl"

definition enter :: "mixer_method \<Rightarrow> 'm mixer \<Rightarrow> 'm mixer" where
  "enter f mx = mx\<lparr>mx_calls := mx_calls mx @ [f]\<rparr>"

text \<open>
  \<^verbatim>\<open>_init_net\<close>, lines 226 to 236. \<^verbatim>\<open>ds_arr[0]\<close> raises \<^verbatim>\<open>IndexError\<close> on an empty
  list, and so does the first sample \<^verbatim>\<open>ds_arr[0][0]\<close> of a dataset without rows. The
  encoder spans handed to the autoregressive network are not modelled.
\<close>

definition init_net ::
  "('m, 'v) collaborators \<Rightarrow> 'm mixer \<Rightarrow> encoded_ds list \<Rightarrow> 'm mixer \<times> py_error option" where
  "init_net co mx ds_arr =
     (case ds_arr of
        [] \<Rightarrow> (mx, Some IndexError)
      | ds0 # _ \<Rightarrow>
          (case ds0 of
             [] \<Rightarrow> (mx, Some IndexError)
           | (X, Y) # _ \<Rightarrow>
               (mx\<lparr>mx_model := Some (co_net co
                     \<lparr>nk_input_size = length X, nk_output_size = length Y,
                      nk_num_hidden = mx_num_hidden mx, nk_dropout = 0,
                      nk_autoregressive = (\<not> mx_default_net mx)\<rparr>)\<rparr>, None)))"

definition mixer_criterion :: "('m, 'v) collaborators \<Rightarrow> 'm mixer \<Rightarrow> real list criterion" where
  "mixer_criterion co mx =
     select_criterion (co_names co) (mx_target_dtype mx) (mx_is_timeseries mx) (mx_index_weights mx)"

definition mixer_optimizer :: "'m mixer \<Rightarrow> optimizer" where
  "mixer_optimizer mx = select_optimizer (mx_is_timeseries mx) (mx_lr mx)"

text \<open>The gradient step of \<^verbatim>\<open>_find_lr\<close> at the rate the sweep has set on the optimizer.\<close>

definition sweep_step ::
  "('m, 'v) collaborators \<Rightarrow> 'm mixer \<Rightarrow> real \<Rightarrow> 'm \<Rightarrow> sample list \<Rightarrow> 'm \<times> fl" where
  "sweep_step co mx lr m b =
     co_step co (mixer_criterion co mx) ((mixer_optimizer mx)\<lparr>opt_lr := lr\<rparr>) m b"

text \<open>The collaborators of the \<open>k\<close>-th bounded run.\<close>

definition mixer_trainer ::
  "('m, 'v) collaborators \<Rightarrow> 'm mixer \<Rightarrow> nat \<Rightarrow> ('m, sample list) trainer" where
  "mixer_trainer co mx k =
     \<lparr>tr_step = co_step co (mixer_criterion co mx) (mixer_optimizer mx),
      tr_loss = co_loss co (mixer_criterion co mx),
      tr_clock = co_clock co k\<rparr>"

text \<open>
  \<^verbatim>\<open>partial_fit\<close>, lines 278 to 289. Without \<^verbatim>\<open>self.model\<close> the optimizer cannot be
  created. \<^verbatim>\<open>int(self.epochs_to_best / 3)\<close> is the integer part of the quotient.
\<close>

definition partial_fit ::
  "('m, 'v) collaborators \<Rightarrow> 'm mixer \<Rightarrow> encoded_ds list \<Rightarrow> encoded_ds list
     \<Rightarrow> 'm mixer \<times> py_error option" where
  "partial_fit co mx train_data dev_data =
     (let train_ds = ConcatedEncodedDs train_data;
          dev_ds = ConcatedEncodedDs (dev_data @ train_data);
          train_dl = DataLoader train_ds (mx_batch_size mx);
          dev_dl = DataLoader dev_ds (mx_batch_size mx)
      in case mx_model mx of
           None \<Rightarrow> (mx, Some AttributeError)
         | Some m \<Rightarrow>
             (case max_fit (mixer_trainer co mx 1) m train_dl dev_dl (mx_stop_after mx)
                     (max 1 (mx_epochs_to_best mx div 3)) of
                (best, epochs, err) \<Rightarrow> (mx\<lparr>mx_model := Some best\<rparr>, None)))"

text \<open>
  \<^verbatim>\<open>fit\<close>, lines 240 to 276. The result is the mixer as the call leaves it and the
  exception that ended the call, if any. \<^verbatim>\<open>_find_lr\<close> trains \<^verbatim>\<open>self.model\<close> in
  place, so the model it leaves behind when it raises is the one the sweep ended with.
\<close>

definition fit ::
  "('m, 'v) collaborators \<Rightarrow> 'm mixer \<Rightarrow> encoded_ds list \<Rightarrow> 'm mixer \<times> py_error option" where
  "fit co mx ds_arr =
     (let train_ds_arr = fst (fit_split ds_arr);
          dev_ds_arr = snd (fit_split ds_arr);
          con_train_ds = ConcatedEncodedDs train_ds_arr;
          con_test_ds = ConcatedEncodedDs dev_ds_arr;
          mx1 = mx\<lparr>mx_batch_size := max 40 (min 200 (length con_train_ds div 10))\<rparr>;
          dev_dl = DataLoader con_test_ds (mx_batch_size mx1);
          train_dl = DataLoader con_train_ds (mx_batch_size mx1);
          mx2 = mx1\<lparr>mx_lr := 1 / 10000, mx_num_hidden := 1\<rparr>
      in case init_net co (enter Init_net mx2) ds_arr of
           (mx3, Some e) \<Rightarrow> (mx3, Some e)
         | (mx3, None) \<Rightarrow>
             (case mx_model mx3 of
                None \<Rightarrow> (mx3, Some AttributeError)
              | Some m0 \<Rightarrow>
                  let mx4 = enter Find_lr mx3
                  in (case find_lr (sweep_step co mx4) (mx_lr mx4) m0 train_dl of
                        Inl e \<Rightarrow>
                          (mx4\<lparr>mx_model :=
                                 Some (sw_model (find_lr_sweep (sweep_step co mx4) (mx_lr mx4) m0 train_dl))\<rparr>,
                           Some e)
                      | Inr (lr, m1) \<Rightarrow>
                          let mx5 = enter Max_fit (mx4\<lparr>mx_lr := lr, mx_model := Some m1\<rparr>);
                              train_dl2 = DataLoader (ConcatedEncodedDs train_ds_arr) 200
                          in (case max_fit (mixer_trainer co mx5 0) m1 train_dl2 dev_dl
                                     (mx_stop_after mx5) 20000 of
                                (best, epoch_to_best_model, err) \<Rightarrow>
                                  let mx6 = mx5\<lparr>mx_model := Some best,
                                                mx_epochs_to_best :=
                                                  mx_epochs_to_best mx5 + epoch_to_best_model\<rparr>
                                  in if length con_test_ds > 0
                                     then (case (if mx_fit_on_dev mx6
                                                 then partial_fit co (enter Partial_fit mx6)
                                                        dev_ds_arr train_ds_arr
                                                 else (mx6, None)) of
                                             (mx7, Some e) \<Rightarrow> (mx7, Some e)
                                           | (mx7, None) \<Rightarrow>
                                               (case mx_model mx7 of
                                                  None \<Rightarrow> (enter Final_tuning mx7, Some AttributeError)
                                                | Some m2 \<Rightarrow>
                                                    (case final_tuning (co_names co)
                                                            (mx_target_dtype mx7) (co_forward co m2)
                                                            (co_decode co) (co_r2 co) dev_ds_arr
                                                            (mx_decode_log mx7) of
                                                       (flag, e) \<Rightarrow>
                                                         ((enter Final_tuning mx7)\<lparr>mx_decode_log := flag\<rparr>,
                                                          e))))
                                     else (mx6, None)))))"

text \<open>
  Collaborators and a mixer for the runs of \<^verbatim>\<open>fit\<close> below: the trainable state counts
  the gradient steps, every loss is 1, the clock reads \<open>e\<close> seconds in epoch \<open>e\<close>; the
  target is an integer column and the time budget is 100 seconds.
\<close>

definition ex_co :: "(nat, int) collaborators" where
  "ex_co = \<lparr>co_names = ex_names, co_net = (\<lambda>kw. 0),
            co_step = (\<lambda>c opt m b. (Suc m, Fin 1)), co_loss = (\<lambda>c m b. Fin 1),
            co_clock = (\<lambda>k e. real e), co_forward = (\<lambda>m x. x),
            co_decode = (\<lambda>flag y. []), co_r2 = (\<lambda>reals preds. Inl ValueError)\<rparr>"

definition ex_mixer :: "nat mixer" where
  "ex_mixer = \<lparr>mx_stop_after = 100, mx_target_dtype = ''integer'', mx_is_timeseries = False,
               mx_fit_on_dev = True, mx_default_net = True, mx_index_weights = [],
               mx_decode_log = False, mx_epochs_to_best = 0, mx_batch_size = 0, mx_lr = 0,
               mx_num_hidden = 0, mx_model = None, mx_calls = []\<rparr>"

section \<open>Properties of the bounded trainer\<close>




lemma max_fit_epoch_time:
  "finite_losses tr train_dl dev_dl (mf_model st) \<Longrightarrow> length (mf_running_errors st) < 4 \<Longrightarrow>
   tr_clock tr e > sa \<Longrightarrow> snd (max_fit_epoch tr train_dl dev_dl sa e st) = TimeUp"
  unfolding max_fit_epoch_def finite_losses_def Let_def
  by (cases "train_batches (tr_step tr) (mf_model st) train_dl") auto






text \<open>
  Claim C2, as the code has it. The test of the time budget is the \<^verbatim>\<open>elif\<close> of
  \<^verbatim>\<open>len(running_errors) >= 5\<close> (lines 201 and 206): it is reached in the first four
  epochs only. There, after an epoch with finite losses, an elapsed time above
  \<open>stop_after\<close> ends the run at that epoch boundary: the loop returns the state of that
  epoch and starts no further epoch, however many are left.
\<close>

theorem max_fit_time_budget_first_four_epochs:
  assumes "finite_losses tr train_dl dev_dl (mf_model st)"
    and "length (mf_running_errors st) < 4"
    and "tr_clock tr epoch > stop_after"
  shows "max_fit_loop tr train_dl dev_dl stop_after (Suc n) epoch st =
           (fst (max_fit_epoch tr train_dl dev_dl stop_after epoch st), TimeUp)"
proof -
  obtain s2 oc where ep: "max_fit_epoch tr train_dl dev_dl stop_after epoch st = (s2, oc)"
    by fastforce
  with max_fit_epoch_time[OF assms] have "oc = TimeUp" by simp
  with ep show ?thesis by simp
qed

theorem max_fit_time_budget_first_four_epochs_witness:
  "finite_losses ex_trainer [()] [()] (mf_model (max_fit_init 0))
   \<and> length (mf_running_errors (max_fit_init (0::nat))) < 4
   \<and> tr_clock ex_trainer 1 > 1 / 2
   \<and> max_fit_loop ex_trainer [()] [()] (1 / 2) (Suc 7) 1 (max_fit_init 0) =
        (fst (max_fit_epoch ex_trainer [()] [()] (1 / 2) 1 (max_fit_init 0)), TimeUp)"
proof -
  have h1: "finite_losses ex_trainer [()] [()] (mf_model (max_fit_init 0))" by code_simp
  have h2: "length (mf_running_errors (max_fit_init (0::nat))) < 4" by code_simp
  have h3: "tr_clock ex_trainer 1 > 1 / 2" by code_simp
  from max_fit_time_budget_first_four_epochs[OF h1 h2 h3] h1 h2 h3 show ?thesis by blast
qed

text \<open>
  Claim C2 as stated fails from the fifth epoch on. With a budget of 4.5 seconds and a
  clock that reads \<open>e\<close> seconds in epoch \<open>e\<close>, the run of \<open>ex_trainer\<close> is not stopped in
  its first four epochs; at the end of epoch 5 the losses are finite, the weighted delta
  is positive (no plateau) and 5 seconds have elapsed, and yet the run goes on: with
  eight epochs allowed, eight errors are recorded.
\<close>

theorem max_fit_time_budget_counterexample:
  "snd (max_fit_run ex_trainer 0 [()] [()] (9 / 2) 4) = Continue
   \<and> finite_losses ex_trainer [()] [()] (mf_model (fst (max_fit_run ex_trainer 0 [()] [()] (9 / 2) 4)))
   \<and> \<not> fl_le (delta_mean (mf_running_errors (fst (max_fit_run ex_trainer 0 [()] [()] (9 / 2) 5))))
            (Fin 0)
   \<and> tr_clock ex_trainer 5 > 9 / 2
   \<and> snd (max_fit_run ex_trainer 0 [()] [()] (9 / 2) 5) = Continue
   \<and> length (mf_running_errors (fst (max_fit_run ex_trainer 0 [()] [()] (9 / 2) 8))) = 8"
  by code_simp







section \<open>Properties of the learning-rate finder\<close>

text \<open>The test of line 139 is true exactly when the counter is not a multiple of 6.\<close>

lemma cadence_fires_iff: "cadence_fires i epoch \<longleftrightarrow> \<not> 6 dvd (i + 1) * epoch"
  by (simp add: cadence_fires_def dvd_eq_mod_eq_0)

lemma find_lr_batch_lengths:
  "length (sw_lr_log st) = length (sw_running_losses st) \<Longrightarrow>
   length (sw_lr_log (find_lr_batch step epoch i b st)) = length (sw_running_losses (find_lr_batch step epoch i b st))
   \<and> length (sw_running_losses st) \<le> length (sw_running_losses (find_lr_batch step epoch i b st))"
  unfolding find_lr_batch_def Let_def
  by (cases "step (sw_lr st) (sw_model st) b") auto

lemma find_lr_batch_fires:
  "cadence_fires i epoch \<Longrightarrow> sw_running_losses (find_lr_batch step epoch i b st) \<noteq> []"
  unfolding find_lr_batch_def Let_def
  by (cases "step (sw_lr st) (sw_model st) b") auto

lemma find_lr_epoch_lengths:
  "length (sw_lr_log st) = length (sw_running_losses st) \<Longrightarrow>
   length (sw_lr_log (find_lr_epoch step epoch i dl st)) = length (sw_running_losses (find_lr_epoch step epoch i dl st))
   \<and> length (sw_running_losses st) \<le> length (sw_running_losses (find_lr_epoch step epoch i dl st))"
proof (induction dl arbitrary: i st)
  case Nil
  then show ?case by simp
next
  case (Cons b dl)
  from find_lr_batch_lengths[OF Cons.prems, of step epoch i b]
  have a: "length (sw_lr_log (find_lr_batch step epoch i b st)) = length (sw_running_losses (find_lr_batch step epoch i b st))"
    and b: "length (sw_running_losses st) \<le> length (sw_running_losses (find_lr_batch step epoch i b st))" by simp_all
  from Cons.IH[OF a, of "Suc i"] b Cons.prems show ?case by auto
qed

lemma find_lr_epochs_lengths:
  "length (sw_lr_log st) = length (sw_running_losses st) \<Longrightarrow>
   length (sw_lr_log (find_lr_epochs step dl n epoch st)) = length (sw_running_losses (find_lr_epochs step dl n epoch st))
   \<and> length (sw_running_losses st) \<le> length (sw_running_losses (find_lr_epochs step dl n epoch st))"
proof (induction n arbitrary: epoch st)
  case 0
  then show ?case by simp
next
  case (Suc n)
  from find_lr_epoch_lengths[OF Suc.prems, of step epoch 0 dl]
  have a: "length (sw_lr_log (find_lr_epoch step epoch 0 dl st)) = length (sw_running_losses (find_lr_epoch step epoch 0 dl st))"
    and b: "length (sw_running_losses st) \<le> length (sw_running_losses (find_lr_epoch step epoch 0 dl st))" by simp_all
  from Suc.IH[OF a, of "Suc epoch"] b Suc.prems show ?case by auto
qed

lemma argmin_from_bound: "k < i \<Longrightarrow> argmin_from k v i xs < i + length xs"
proof (induction xs arbitrary: k v i)
  case Nil
  then show ?case by simp
next
  case (Cons x xs)
  have a: "argmin_from i x (Suc i) xs < Suc i + length xs" by (rule Cons.IH) simp
  have b: "argmin_from k v (Suc i) xs < Suc i + length xs" by (rule Cons.IH) (use Cons.prems in simp)
  from a b Cons.prems show ?case by simp
qed

lemma np_argmin_bound: "np_argmin xs = Inr k \<Longrightarrow> k < length xs"
  using argmin_from_bound[of 0 1] by (auto simp: np_argmin_def split: list.splits)


lemma find_lr_init_lengths: "length (sw_lr_log (find_lr_init lr m)) = length (sw_running_losses (find_lr_init lr m))"
  by (simp add: find_lr_init_def)

lemma find_lr_sweep_lengths:
  "length (sw_lr_log (find_lr_sweep step lr m dl)) = length (sw_running_losses (find_lr_sweep step lr m dl))"
  unfolding find_lr_sweep_def by (rule conjunct1[OF find_lr_epochs_lengths[OF find_lr_init_lengths]])

lemma find_lr_returns_iff:
  "(\<exists>r. find_lr step lr m dl = Inr r) \<longleftrightarrow> sw_running_losses (find_lr_sweep step lr m dl) \<noteq> []"
proof (cases "np_argmin (sw_running_losses (find_lr_sweep step lr m dl))")
  case (Inl e)
  then show ?thesis by (auto simp: find_lr_def np_argmin_def split: list.splits)
next
  case (Inr k)
  from np_argmin_bound[OF Inr] find_lr_sweep_lengths[of step lr m dl]
  have "k < length (sw_lr_log (find_lr_sweep step lr m dl))" by simp
  with Inr show ?thesis by (auto simp: find_lr_def Let_def np_argmin_def split: list.splits)
qed

lemma find_lr_sweep_empty_loader:
  "sw_running_losses (find_lr_epochs step [] n epoch st) = sw_running_losses st"
  by (induction n arbitrary: epoch st) auto

lemma nonempty_mono: "xs \<noteq> [] \<Longrightarrow> length xs \<le> length ys \<Longrightarrow> ys \<noteq> []"
  by auto

lemma find_lr_sweep_nonempty_loader:
  assumes "dl \<noteq> []"
  shows "sw_running_losses (find_lr_sweep step lr m dl) \<noteq> []"
proof -
  from assms obtain b bs where dl: "dl = b # bs" by (cases dl) auto
  define s1 where "s1 = find_lr_batch step 1 0 b (find_lr_init lr m)"
  define s2 where "s2 = find_lr_epoch step 1 (Suc 0) bs s1"
  have f: "cadence_fires 0 1" by (simp add: cadence_fires_def)
  have l1: "length (sw_lr_log s1) = length (sw_running_losses s1)"
    unfolding s1_def by (rule conjunct1[OF find_lr_batch_lengths[OF find_lr_init_lengths]])
  have n1: "sw_running_losses s1 \<noteq> []" unfolding s1_def by (rule find_lr_batch_fires[OF f])
  have l2: "length (sw_lr_log s2) = length (sw_running_losses s2)"
    unfolding s2_def by (rule conjunct1[OF find_lr_epoch_lengths[OF l1]])
  have n2: "sw_running_losses s2 \<noteq> []"
    unfolding s2_def by (rule nonempty_mono[OF n1 conjunct2[OF find_lr_epoch_lengths[OF l1]]])
  have "find_lr_sweep step lr m dl = find_lr_epochs step dl 99 (Suc 1) s2"
    unfolding find_lr_sweep_def dl s2_def s1_def by (simp add: eval_nat_numeral find_lr_init_def)
  then show ?thesis
    using nonempty_mono[OF n2 conjunct2[OF find_lr_epochs_lengths[OF l2]]] by simp
qed

text \<open>
  Claim C1, evaluated on the code. In the first epoch over a loader of six batches the
  counter \<open>(i + 1) * epoch\<close> is 1 to 6. The check of line 139 fires at the batch
  indices 0 to 4, where the counter is not divisible by 6, and is skipped at index 5,
  where it is: five cumulative losses are recorded, one per batch, and the loss of the
  sixth batch is still pending in \<^verbatim>\<open>cum_loss\<close> when the epoch ends.
\<close>

theorem find_lr_cadence_inverted:
  "cadence_fires 0 1 \<and> \<not> 6 dvd (0 + 1) * (1::nat)
   \<and> \<not> cadence_fires 5 1 \<and> 6 dvd (5 + 1) * (1::nat)
   \<and> sw_running_losses
        (find_lr_epoch ex_step 1 0 [(), (), (), (), (), ()] (find_lr_init (1 / 10000) 0))
        = [Fin 10, Fin 9, Fin 8, Fin 7, Fin 6]
   \<and> sw_cum_loss
        (find_lr_epoch ex_step 1 0 [(), (), (), (), (), ()] (find_lr_init (1 / 10000) 0))
        = Fin 5"
  by code_simp

lemma find_lr_epochs_empty: "find_lr_epochs step [] n epoch st = st"
  by (induction n arbitrary: epoch st) auto

lemma find_lr_sweep_empty: "find_lr_sweep step lr m [] = find_lr_init lr m"
  by (simp add: find_lr_sweep_def find_lr_epochs_empty)

lemma find_lr_empty_loader: "find_lr step lr m [] = Inl ValueError"
  by (simp add: find_lr_def find_lr_sweep_empty find_lr_init_def np_argmin_def)

text \<open>
  Claim C5, as the code has it. \<^verbatim>\<open>_find_lr\<close> ends with no cumulative-loss checkpoint
  recorded exactly when the train loader is empty; it then applies \<^verbatim>\<open>np.argmin\<close> to
  an empty list and raises \<^verbatim>\<open>ValueError\<close>. Over every loader that yields a batch a
  checkpoint is recorded and a learning rate is returned, however few batches it has.
\<close>

theorem find_lr_raises_only_on_empty_loader:
  "(sw_running_losses (find_lr_sweep step lr m dl) = [] \<longleftrightarrow> dl = [])
   \<and> (dl = [] \<longrightarrow> find_lr step lr m dl = Inl ValueError)
   \<and> (dl \<noteq> [] \<longrightarrow> (\<exists>r. find_lr step lr m dl = Inr r))"
proof -
  have A: "sw_running_losses (find_lr_sweep step lr m dl) = [] \<longleftrightarrow> dl = []"
    using find_lr_sweep_nonempty_loader[of dl step lr m]
    by (auto simp: find_lr_sweep_empty find_lr_init_def)
  have B: "dl = [] \<longrightarrow> find_lr step lr m dl = Inl ValueError"
    by (simp add: find_lr_empty_loader)
  have C: "dl \<noteq> [] \<longrightarrow> (\<exists>r. find_lr step lr m dl = Inr r)"
    using find_lr_returns_iff[of step lr m dl] find_lr_sweep_nonempty_loader[of dl step lr m]
    by blast
  from A B C show ?thesis by blast
qed

theorem find_lr_raises_only_on_empty_loader_witness:
  "sw_running_losses (find_lr_sweep ex_step (1 / 10000) 0 []) = []
   \<and> find_lr ex_step (1 / 10000) 0 [] = Inl ValueError
   \<and> [()] \<noteq> []
   \<and> sw_running_losses (find_lr_sweep ex_rising_step (1 / 10000) 0 [()]) \<noteq> []
   \<and> (\<exists>r. find_lr ex_rising_step (1 / 10000) 0 [()] = Inr r)"
proof -
  have h: "[()] \<noteq> []" by simp
  from find_lr_raises_only_on_empty_loader[of ex_step "1 / 10000" 0 "[]"]
       find_lr_raises_only_on_empty_loader[of ex_rising_step "1 / 10000" 0 "[()]"] h
  show ?thesis by blast
qed

text \<open>
  Claim C5 as stated fails for a loader with too little data for a cadence cycle. Over a
  loader of one batch with a rising loss the sweep takes two gradient steps, at the
  counters 1 and 2, neither divisible by 6; it records a checkpoint at each, stops at
  the second and returns the initial rate \<open>0.0001\<close> with the model after the first step.
\<close>

theorem find_lr_raises_only_on_empty_loader_counterexample:
  "length [()] < 6
   \<and> sw_model (find_lr_sweep ex_rising_step (1 / 10000) 0 [()]) = 2
   \<and> \<not> 6 dvd (0 + 1) * (1::nat) \<and> \<not> 6 dvd (0 + 1) * (2::nat)
   \<and> sw_running_losses (find_lr_sweep ex_rising_step (1 / 10000) 0 [()]) = [Fin 1, Fin 2]
   \<and> find_lr ex_rising_step (1 / 10000) 0 [()] = Inr (1 / 10000, 1)"
  by code_simp

section \<open>Properties of the loss selector, the final tuning and the inference arguments\<close>

text \<open>
  Claim C6. Over a well-formed vocabulary the selector follows the first-match policy:
  weighted cross-entropy with the encoder's \<^verbatim>\<open>index_weights\<close> for a categorical or
  binary target, binary cross-entropy with logits for a tags target, mean absolute error
  for an integer, float or array target of a time-series problem, mean squared error for
  a plain integer or float target, and mean squared error for any other type. The test
  of line 81 is a substring test; it agrees with equality on every type name that does
  not occur inside the name of the tags type, which is what the last part asks of the
  other type.
\<close>

theorem select_criterion_policy:
  assumes "dtype_names_ok dn"
  shows "(t \<in> {dt_categorical dn, dt_binary dn} \<longrightarrow>
            select_criterion dn t ts w = TransformCrossEntropyLoss w)
       \<and> (t = dt_tags dn \<longrightarrow> select_criterion dn t ts w = BCEWithLogitsLoss)
       \<and> (t \<in> {dt_integer dn, dt_float dn, dt_array dn} \<and> ts \<longrightarrow>
            select_criterion dn t ts w = L1Loss)
       \<and> (t \<in> {dt_integer dn, dt_float dn} \<and> \<not> ts \<longrightarrow> select_criterion dn t ts w = MSELoss)
       \<and> (t \<notin> {dt_categorical dn, dt_binary dn, dt_tags dn, dt_integer dn, dt_float dn}
            \<and> \<not> (t = dt_array dn \<and> ts) \<and> \<not> sublist t (dt_tags dn) \<longrightarrow>
            select_criterion dn t ts w = MSELoss)"
  using assms unfolding dtype_names_ok_def select_criterion_def by auto

theorem select_criterion_policy_witness:
  "dtype_names_ok ex_names
   \<and> select_criterion ex_names ''categorical'' False [1, 1, 1 :: real]
       = TransformCrossEntropyLoss [1, 1, 1]
   \<and> select_criterion ex_names ''binary'' True [1, 1 :: real] = TransformCrossEntropyLoss [1, 1]
   \<and> select_criterion ex_names ''tags'' False [1 :: real] = BCEWithLogitsLoss
   \<and> select_criterion ex_names ''integer'' True [1 :: real] = L1Loss
   \<and> select_criterion ex_names ''array'' True [1 :: real] = L1Loss
   \<and> select_criterion ex_names ''float'' False [1 :: real] = MSELoss
   \<and> select_criterion ex_names ''datetime'' True [1 :: real] = MSELoss"
proof -
  have ok: "dtype_names_ok ex_names" by code_simp
  have n: "dt_categorical ex_names = ''categorical''" "dt_binary ex_names = ''binary''"
    "dt_tags ex_names = ''tags''" "dt_integer ex_names = ''integer''"
    "dt_float ex_names = ''float''" "dt_array ex_names = ''array''"
    by (simp_all add: ex_names_def)
  have s: "\<not> sublist ''datetime'' ''tags''" by code_simp
  note P = select_criterion_policy[OF ok]
  from P[of "''categorical''" False "[1, 1, 1 :: real]"]
       P[of "''binary''" True "[1, 1 :: real]"]
       P[of "''tags''" False "[1 :: real]"]
       P[of "''integer''" True "[1 :: real]"]
       P[of "''array''" True "[1 :: real]"]
       P[of "''float''" False "[1 :: real]"]
       P[of "''datetime''" True "[1 :: real]"] ok s
  show ?thesis by (simp add: n)
qed

text \<open>
  Claim C7. For a target that is neither integer nor float the flag is left as it was.
  For a numeric target, let \<open>a\<close> be the score \<^verbatim>\<open>r2_score\<close> gives to the predictions
  decoded with the flag set (the decoded network outputs of all samples of all supplied
  datasets, in order) against the ground truth decoded with the flag set, and \<open>b\<close> the
  same with the flag cleared. Then the flag ends as the comparison \<open>a > b\<close>: \<open>True\<close>
  when decoding with the flag set scored higher, \<open>False\<close> when decoding with the flag
  cleared scored higher; with the scores 0.8 and 0.75 it ends \<open>True\<close>.
\<close>

theorem final_tuning_selects_higher_r2:
  "(t \<notin> {dt_integer dn, dt_float dn} \<longrightarrow>
      final_tuning dn t forward decode r2 data_arr flag = (flag, None))
   \<and> (t \<in> {dt_integer dn, dt_float dn}
        \<and> r2 (concat (map (\<lambda>(X, Y). decode True Y) (concat data_arr)))
              (concat (map (\<lambda>(X, Y). decode True (forward X)) (concat data_arr))) = Inr a
        \<and> r2 (concat (map (\<lambda>(X, Y). decode False Y) (concat data_arr)))
              (concat (map (\<lambda>(X, Y). decode False (forward X)) (concat data_arr))) = Inr b
      \<longrightarrow>
        final_tuning dn t forward decode r2 data_arr flag = (fl_gt a b, None)
        \<and> (fl_gt a b \<longrightarrow> final_tuning dn t forward decode r2 data_arr flag = (True, None))
        \<and> (fl_gt b a \<longrightarrow> final_tuning dn t forward decode r2 data_arr flag = (False, None))
        \<and> (a = Fin (8 / 10) \<and> b = Fin (75 / 100) \<longrightarrow>
              final_tuning dn t forward decode r2 data_arr flag = (True, None)))"
proof -
  have asym: "fl_gt y x \<Longrightarrow> \<not> fl_gt x y" for x y
    unfolding fl_gt_def by (cases x; cases y) auto
  have e: "fl_gt (Fin (8 / 10)) (Fin (75 / 100))" by (simp add: fl_gt_def)
  show ?thesis using asym e
    by (auto simp: final_tuning_def tuning_score_def decoded_predictions_def
        decoded_real_values_def)
qed

theorem final_tuning_selects_higher_r2_witness:
  "''integer'' \<in> {dt_integer ex_names, dt_float ex_names}
   \<and> concat (map (\<lambda>(X, Y). ex_decode True Y) (concat ex_data)) = [0, 2]
   \<and> concat (map (\<lambda>(X, Y). ex_decode True ((\<lambda>x. x) X)) (concat ex_data)) = [1 / 5, 7 / 5]
   \<and> ex_r2_score [0, 2] [1 / 5, 7 / 5] = Inr (Fin (8 / 10))
   \<and> concat (map (\<lambda>(X, Y). ex_decode False Y) (concat ex_data)) = [0, 2]
   \<and> concat (map (\<lambda>(X, Y). ex_decode False ((\<lambda>x. x) X)) (concat ex_data)) = [1 / 2, 3 / 2]
   \<and> ex_r2_score [0, 2] [1 / 2, 3 / 2] = Inr (Fin (75 / 100))
   \<and> final_tuning ex_names ''integer'' (\<lambda>x. x) ex_decode ex_r2_score ex_data False = (True, None)
   \<and> ''tags'' \<notin> {dt_integer ex_names, dt_float ex_names}
   \<and> final_tuning ex_names ''tags'' (\<lambda>x. x) ex_decode ex_r2_score ex_data False = (False, None)"
proof -
  have h1: "''integer'' \<in> {dt_integer ex_names, dt_float ex_names}" by (simp add: ex_names_def)
  have l1: "concat (map (\<lambda>(X, Y). ex_decode True Y) (concat ex_data)) = [0, 2]" by code_simp
  have l2: "concat (map (\<lambda>(X, Y). ex_decode True ((\<lambda>x. x) X)) (concat ex_data)) = [1 / 5, 7 / 5]"
    by code_simp
  have l3: "concat (map (\<lambda>(X, Y). ex_decode False Y) (concat ex_data)) = [0, 2]" by code_simp
  have l4: "concat (map (\<lambda>(X, Y). ex_decode False ((\<lambda>x. x) X)) (concat ex_data)) = [1 / 2, 3 / 2]"
    by code_simp
  have s1: "ex_r2_score [0, 2] [1 / 5, 7 / 5] = Inr (Fin (8 / 10))" by code_simp
  have s2: "ex_r2_score [0, 2] [1 / 2, 3 / 2] = Inr (Fin (75 / 100))" by code_simp
  have h2: "ex_r2_score (concat (map (\<lambda>(X, Y). ex_decode True Y) (concat ex_data)))
              (concat (map (\<lambda>(X, Y). ex_decode True ((\<lambda>x. x) X)) (concat ex_data)))
            = Inr (Fin (8 / 10))" unfolding l1 l2 by (rule s1)
  have h3: "ex_r2_score (concat (map (\<lambda>(X, Y). ex_decode False Y) (concat ex_data)))
              (concat (map (\<lambda>(X, Y). ex_decode False ((\<lambda>x. x) X)) (concat ex_data)))
            = Inr (Fin (75 / 100))" unfolding l3 l4 by (rule s2)
  have h4: "''tags'' \<notin> {dt_integer ex_names, dt_float ex_names}" by (simp add: ex_names_def)
  from final_tuning_selects_higher_r2[of "''integer''" ex_names "\<lambda>x. x" ex_decode ex_r2_score
         ex_data False "Fin (8 / 10)" "Fin (75 / 100)"]
       final_tuning_selects_higher_r2[of "''tags''" ex_names "\<lambda>x. x" ex_decode ex_r2_score
         ex_data False "Fin (8 / 10)" "Fin (75 / 100)"]
       h1 h2 h3 h4 l1 l2 l3 l4 s1 s2
  show ?thesis by blast
qed

text \<open>
  What the loop of lines 304 and 305 leaves behind: the dependency data has one key, the
  last declared dependency.
\<close>

lemma dependency_loop_last:
  "deps \<noteq> [] \<Longrightarrow> dependency_loop deps data_frame idx kwargs = Inr kw \<Longrightarrow>
   \<exists>v. (data_frame ! idx) (last deps) = Some v
      \<and> kw_dependency_data kw = Some (Map.empty(last deps \<mapsto> [v]))
      \<and> kw_return_raw kw = kw_return_raw kwargs"
proof (induction deps arbitrary: kwargs)
  case Nil
  then show ?case by simp
next
  case (Cons dep deps)
  from Cons.prems(2) obtain v where v: "(data_frame ! idx) dep = Some v" and
    rest: "dependency_loop deps data_frame idx
             (kwargs\<lparr>kw_dependency_data := Some (Map.empty(dep \<mapsto> [v]))\<rparr>) = Inr kw"
    by (auto split: if_splits option.splits)
  show ?case
  proof (cases "deps = []")
    case True
    with v rest show ?thesis by (intro exI[of _ v]) (auto simp: fun_upd_def)
  next
    case False
    from Cons.IH[OF False rest] False show ?thesis by simp
  qed
qed

text \<open>
  Claim C9, evaluated on the code. With the dependencies \<open>a\<close> and \<open>b\<close> declared and both
  columns present in the source row, \<^verbatim>\<open>decode\<close> receives dependency data with the
  value of \<open>b\<close> only: the value of \<open>a\<close>, 1 in the row, is not passed.
\<close>

theorem call_passes_last_dependency_only:
  "(case call_kwargs [''a'', ''b''] ex_frame 0 False False of
      Inl e \<Rightarrow> False
    | Inr kw \<Rightarrow> dependency_value kw ''a'' = None \<and> dependency_value kw ''b'' = Some [2])
   \<and> (ex_frame ! 0) ''a'' = Some 1"
  by code_simp

section \<open>Properties of \<^verbatim>\<open>fit\<close>\<close>

lemma DataLoader_empty: "DataLoader [] batch_size = []"
  by (simp add: DataLoader.simps)

lemma DataLoader_nonempty: "ds \<noteq> [] \<Longrightarrow> 0 < batch_size \<Longrightarrow> DataLoader ds batch_size \<noteq> []"
  by (subst DataLoader.simps) simp

lemma split_index_one: "split_index (Suc 0) = 0"
  by (simp add: split_index_def)

lemma fit_split_single: "fit_split [d] = ([], [d])"
  by (simp add: fit_split_def split_index_one)

lemma init_net_ok:
  "init_net co mx (((X, Y) # r0) # rest) =
     (mx\<lparr>mx_model := Some (co_net co
           \<lparr>nk_input_size = length X, nk_output_size = length Y,
            nk_num_hidden = mx_num_hidden mx, nk_dropout = 0,
            nk_autoregressive = (\<not> mx_default_net mx)\<rparr>)\<rparr>, None)"
  by (simp add: init_net_def)

text \<open>With an empty validation side \<^verbatim>\<open>fit\<close> never enters \<^verbatim>\<open>partial_fit\<close> or
  \<^verbatim>\<open>_final_tuning\<close>, whether it returns or raises.\<close>

lemma fit_calls_without_validation:
  assumes "ConcatedEncodedDs (snd (fit_split ds_arr)) = []"
  shows "set (mx_calls (fst (fit co mx ds_arr)))
           \<subseteq> set (mx_calls mx) \<union> {Init_net, Find_lr, Max_fit}"
  unfolding fit_def Let_def using assms
  by (auto simp: enter_def init_net_def split: sum.splits prod.splits option.splits list.splits)

text \<open>
  Claim C8, as the code has it. When the first partition has a row and the validation
  side of the split is empty, \<^verbatim>\<open>fit\<close> returns without raising, and the methods it has
  entered are \<^verbatim>\<open>_init_net\<close>, \<^verbatim>\<open>_find_lr\<close> and \<^verbatim>\<open>_max_fit\<close>: neither
  \<^verbatim>\<open>partial_fit\<close> nor \<^verbatim>\<open>_final_tuning\<close> is invoked, whatever \<^verbatim>\<open>fit_on_dev\<close> says.
\<close>

theorem fit_skips_on_empty_validation_side:
  assumes "ds_arr \<noteq> []" and "hd ds_arr \<noteq> []"
    and "ConcatedEncodedDs (snd (fit_split ds_arr)) = []"
  shows "snd (fit co mx ds_arr) = None
       \<and> mx_calls (fst (fit co mx ds_arr)) = mx_calls mx @ [Init_net, Find_lr, Max_fit]"
proof -
  from assms(1,2) obtain X Y r0 rest where ds: "ds_arr = ((X, Y) # r0) # rest"
    by (cases ds_arr; cases "hd ds_arr") auto
  define k where "k = split_index (length ds_arr)"
  have sp: "fit_split ds_arr = (take k ds_arr, drop k ds_arr)" by (simp add: fit_split_def k_def)
  have k_pos: "k \<noteq> 0"
  proof
    assume "k = 0"
    with sp assms(3) ds show False by (simp add: ConcatedEncodedDs_def)
  qed
  then obtain j where j: "k = Suc j" by (cases k) auto
  define con_train where "con_train = ConcatedEncodedDs (fst (fit_split ds_arr))"
  have train_ne: "con_train \<noteq> []"
    unfolding con_train_def sp by (simp add: ds j ConcatedEncodedDs_def)
  define train_dl where "train_dl = DataLoader con_train (max 40 (min 200 (length con_train div 10)))"
  have dl_ne: "train_dl \<noteq> []" unfolding train_dl_def by (rule DataLoader_nonempty[OF train_ne]) simp
  have F: "find_lr step lr m train_dl \<noteq> Inl e" for step :: "real \<Rightarrow> 'a \<Rightarrow> sample list \<Rightarrow> 'a \<times> fl" and lr m e
    using find_lr_returns_iff[of step lr m train_dl] find_lr_sweep_nonempty_loader[OF dl_ne, of step lr m]
    by auto
  have I: "init_net co mxx ds_arr =
     (mxx\<lparr>mx_model := Some (co_net co
           \<lparr>nk_input_size = length X, nk_output_size = length Y,
            nk_num_hidden = mx_num_hidden mxx, nk_dropout = 0,
            nk_autoregressive = (\<not> mx_default_net mxx)\<rparr>)\<rparr>, None)" for mxx :: "'a mixer"
    unfolding ds by (rule init_net_ok)
  show ?thesis
    unfolding fit_def Let_def I con_train_def[symmetric]
    using F[unfolded train_dl_def] assms(3)
    by (auto simp: enter_def split: sum.splits prod.splits)
qed

theorem fit_skips_on_empty_validation_side_witness:
  "[[([1], [1])], []] \<noteq> ([] :: encoded_ds list)
   \<and> hd [[([1], [1])], []] \<noteq> ([] :: encoded_ds)
   \<and> ConcatedEncodedDs (snd (fit_split [[([1], [1])], []])) = []
   \<and> mx_fit_on_dev ex_mixer
   \<and> snd (fit ex_co ex_mixer [[([1], [1])], []]) = None
   \<and> mx_calls (fst (fit ex_co ex_mixer [[([1], [1])], []])) = [Init_net, Find_lr, Max_fit]"
proof -
  have h1: "[[([1], [1])], []] \<noteq> ([] :: encoded_ds list)" by simp
  have h2: "hd [[([1], [1])], []] \<noteq> ([] :: encoded_ds)" by simp
  have h3: "ConcatedEncodedDs (snd (fit_split [[([1], [1])], []])) = ([] :: encoded_ds)"
    by code_simp
  have h4: "mx_fit_on_dev ex_mixer" "mx_calls ex_mixer = []" by (simp_all add: ex_mixer_def)
  from fit_skips_on_empty_validation_side[OF h1 h2 h3, of ex_co ex_mixer] h1 h2 h3 h4
  show ?thesis by simp
qed

text \<open>
  Claim C8 as stated fails when there is nothing to build the network from. For the
  empty list of partitions the validation side is empty, and \<^verbatim>\<open>fit\<close> raises
  \<^verbatim>\<open>IndexError\<close> in \<^verbatim>\<open>_init_net\<close>; so it does for a single partition without rows.
\<close>

theorem fit_skips_on_empty_validation_side_counterexample:
  "ConcatedEncodedDs (snd (fit_split ([] :: encoded_ds list))) = []
   \<and> snd (fit ex_co ex_mixer []) = Some IndexError
   \<and> ConcatedEncodedDs (snd (fit_split [[] :: encoded_ds])) = []
   \<and> snd (fit ex_co ex_mixer [[]]) = Some IndexError"
  by code_simp

text \<open>
  Claim C10, as the code has it. With a single partition the split gives no partition
  to the training side and the one partition to the validation side, and the batch size
  is clamped up to 40. \<^verbatim>\<open>_find_lr\<close> then runs over an empty loader, records no
  checkpoint and raises \<^verbatim>\<open>ValueError\<close>, so that \<^verbatim>\<open>fit\<close> ends there, with
  \<^verbatim>\<open>_init_net\<close> and \<^verbatim>\<open>_find_lr\<close> the only methods entered; when the partition has no
  row, \<^verbatim>\<open>_init_net\<close> raises \<^verbatim>\<open>IndexError\<close> before. In general the training side is the
  first \<open>\<lfloor>0.9 n\<rfloor>\<close> of the \<open>n\<close> partitions.
\<close>

theorem fit_single_partition:
  assumes "d \<noteq> []"
  shows "fit_split [d] = ([], [d])
       \<and> snd (fit co mx [d]) = Some ValueError
       \<and> mx_batch_size (fst (fit co mx [d])) = 40
       \<and> mx_calls (fst (fit co mx [d])) = mx_calls mx @ [Init_net, Find_lr]
       \<and> snd (fit co mx [[]]) = Some IndexError
       \<and> fst (fit_split ds_arr) = take (length ds_arr * 9 div 10) ds_arr"
proof -
  from assms obtain X Y r0 where d: "d = (X, Y) # r0" by (cases d) auto
  have "fit co mx [d] =
          ((enter Find_lr (fst (init_net co (enter Init_net
               (mx\<lparr>mx_batch_size := 40, mx_lr := 1 / 10000, mx_num_hidden := 1\<rparr>)) [d])))
             \<lparr>mx_model := Some (co_net co
                \<lparr>nk_input_size = length X, nk_output_size = length Y, nk_num_hidden = 1,
                 nk_dropout = 0, nk_autoregressive = (\<not> mx_default_net mx)\<rparr>)\<rparr>,
           Some ValueError)"
    unfolding fit_def Let_def
    by (simp add: fit_split_single ConcatedEncodedDs_def DataLoader_empty find_lr_empty_loader
        d init_net_ok enter_def find_lr_sweep_empty find_lr_init_def)
  moreover have "snd (fit co mx [[]]) = Some IndexError"
    unfolding fit_def Let_def by (simp add: init_net_def)
  ultimately show ?thesis
    by (simp add: fit_split_single d init_net_ok enter_def fit_split_def split_index_def)
qed

theorem fit_single_partition_witness:
  "[([1], [1])] \<noteq> ([] :: encoded_ds)
   \<and> fit_split [[([1], [1]) :: sample]] = ([], [[([1], [1])]])
   \<and> snd (fit ex_co ex_mixer [[([1], [1])]]) = Some ValueError
   \<and> mx_batch_size (fst (fit ex_co ex_mixer [[([1], [1])]])) = 40
   \<and> mx_calls (fst (fit ex_co ex_mixer [[([1], [1])]])) = [Init_net, Find_lr]"
proof -
  have h1: "[([1], [1])] \<noteq> ([] :: encoded_ds)" by simp
  have h2: "mx_calls ex_mixer = []" by (simp add: ex_mixer_def)
  from fit_single_partition[OF h1, of ex_co ex_mixer "[] :: nat list"] h1 h2
  show ?thesis by simp
qed

text \<open>
  Claim C10 as stated fails in its consequence for the bounded trainer: on a single
  partition \<^verbatim>\<open>fit\<close> raises in \<^verbatim>\<open>_find_lr\<close>, and \<^verbatim>\<open>_max_fit\<close> is not entered.
\<close>

theorem fit_single_partition_counterexample:
  "snd (fit ex_co ex_mixer [[([1], [1])]]) = Some ValueError
   \<and> Max_fit \<notin> set (mx_calls (fst (fit ex_co ex_mixer [[([1], [1])]])))"
  by code_simp

end
